theory Spec2Isabelle
  imports Complex_Main "HOL-Library.Word"
begin

section \<open>Python values used by the component\<close>

text \<open>
  The component is \<^verbatim>\<open>custom_components/amazon_rekognition/image_processing.py\<close>.

  Strings: a Python \<^verbatim>\<open>str\<close> is modelled as a \<^typ>\<open>string\<close> whose characters are the
  code points U+0000 to U+00FF, one \<^typ>\<open>char\<close> each. The three character tables below
  (\<^verbatim>\<open>str.lower\<close>, the white space removed by \<^verbatim>\<open>str.strip\<close>, and the class
  \<^verbatim>\<open>\w\<close> of a Unicode pattern) are those of CPython on that range; code points above
  U+00FF are outside the model.

  Numbers: a Python \<^verbatim>\<open>float\<close> is modelled as the real number it denotes, so the
  comparisons are exact. Rounding to one decimal is round-half-to-even on that exact
  value, which is what \<^verbatim>\<open>round(x, 1)\<close> and the format \<^verbatim>\<open>.1f\<close> do to the exact value
  of a float; that the result is stored again in binary, and the values NaN and
  infinity, are outside the model.

  Arithmetic on floats rounds. \<open>to_double\<close> gives the binary64 number nearest to a
  real, a tie going to the even significand (53 bits, exponents from -1022, with the
  subnormal numbers); a real that is not such a number stands for the one nearest to it,
  as the parser of a response reads a decimal. \<open>float_add\<close> and \<open>float_mul\<close> are the
  sum and the product of two floats. Overflow is outside the model.
\<close>

definition lower_char :: "char \<Rightarrow> char" where
  "lower_char c =
     (let n = (of_char c :: nat)
      in if (65 \<le> n \<and> n \<le> 90) \<or> (192 \<le> n \<and> n \<le> 214) \<or> (216 \<le> n \<and> n \<le> 222)
         then char_of (n + 32) else c)"

definition lower :: "string \<Rightarrow> string" where
  \<comment> \<open>\<^verbatim>\<open>str.lower()\<close>\<close>
  "lower s = map lower_char s"

definition isspace :: "char \<Rightarrow> bool" where
  \<comment> \<open>the characters \<^verbatim>\<open>str.strip()\<close> removes\<close>
  "isspace c =
     (let n = (of_char c :: nat)
      in (9 \<le> n \<and> n \<le> 13) \<or> (28 \<le> n \<and> n \<le> 32) \<or> n = 133 \<or> n = 160)"

definition is_word :: "char \<Rightarrow> bool" where
  \<comment> \<open>the class \<^verbatim>\<open>\w\<close> of a \<^verbatim>\<open>str\<close> pattern under \<^verbatim>\<open>(?u)\<close>\<close>
  "is_word c =
     (let n = (of_char c :: nat)
      in (48 \<le> n \<and> n \<le> 57) \<or> (65 \<le> n \<and> n \<le> 90) \<or> n = 95 \<or> (97 \<le> n \<and> n \<le> 122)
         \<or> n = 170 \<or> n = 178 \<or> n = 179 \<or> n = 181 \<or> n = 185 \<or> n = 186
         \<or> (188 \<le> n \<and> n \<le> 190) \<or> (192 \<le> n \<and> n \<le> 214)
         \<or> (216 \<le> n \<and> n \<le> 246) \<or> (248 \<le> n \<and> n \<le> 255))"

fun lstrip :: "string \<Rightarrow> string" where
  "lstrip [] = []"
| "lstrip (c # cs) = (if isspace c then lstrip cs else c # cs)"

definition rstrip :: "string \<Rightarrow> string" where
  "rstrip s = rev (lstrip (rev s))"

definition strip :: "string \<Rightarrow> string" where
  \<comment> \<open>\<^verbatim>\<open>str.strip()\<close> with no argument\<close>
  "strip s = rstrip (lstrip s)"

fun replace :: "string \<Rightarrow> char \<Rightarrow> string \<Rightarrow> string" where
  \<comment> \<open>\<^verbatim>\<open>s.replace(old, new)\<close> for a one-character \<^verbatim>\<open>old\<close>\<close>
  "replace [] old new = []"
| "replace (c # cs) old new = (if c = old then new @ replace cs old new else c # replace cs old new)"

fun re_sub :: "(char \<Rightarrow> bool) \<Rightarrow> string \<Rightarrow> string \<Rightarrow> string" where
  \<comment> \<open>\<^verbatim>\<open>re.sub(pattern, repl, s)\<close> for a pattern that is one character class, given as
      the predicate of the characters it matches\<close>
  "re_sub pat repl [] = []"
| "re_sub pat repl (c # cs) = (if pat c then repl @ re_sub pat repl cs else c # re_sub pat repl cs)"

definition round_half_even :: "real \<Rightarrow> int" where
  "round_half_even y =
     (let f = \<lfloor>y\<rfloor>; d = y - of_int f
      in if d < 1 / 2 then f else if 1 / 2 < d then f + 1 else if even f then f else f + 1)"

definition py_round1 :: "real \<Rightarrow> real" where
  \<comment> \<open>\<^verbatim>\<open>round(x, 1)\<close>\<close>
  "py_round1 x = of_int (round_half_even (x * 10)) / 10"

text \<open>
  The power of two at or below \<open>a\<close>: the search goes up from 1 for \<open>a \<ge> 1\<close> and down
  from 1 otherwise, and ends at the largest and the smallest exponent of binary64.
\<close>

fun binade_up :: "nat \<Rightarrow> real \<Rightarrow> real \<Rightarrow> real" where
  "binade_up 0 p a = p"
| "binade_up (Suc n) p a = (if 2 * p \<le> a then binade_up n (2 * p) a else p)"

fun binade_down :: "nat \<Rightarrow> real \<Rightarrow> real \<Rightarrow> real" where
  "binade_down 0 p a = p"
| "binade_down (Suc n) p a = (if a < p then binade_down n (p / 2) a else p)"

definition binade :: "real \<Rightarrow> real" where
  "binade a = (if 1 \<le> a then binade_up 1023 1 a else binade_down 1022 1 a)"

definition to_double :: "real \<Rightarrow> real" where
  \<comment> \<open>the unit in the last place is the power of two divided by \<open>2 ^ 52\<close>\<close>
  "to_double x =
     (let ulp = binade \<bar>x\<bar> / 4503599627370496
      in of_int (round_half_even (x / ulp)) * ulp)"

definition float_add :: "real \<Rightarrow> real \<Rightarrow> real" where
  \<comment> \<open>\<^verbatim>\<open>x + y\<close> on floats\<close>
  "float_add x y = to_double (to_double x + to_double y)"

definition float_mul :: "real \<Rightarrow> real \<Rightarrow> real" where
  \<comment> \<open>\<^verbatim>\<open>x * y\<close> on floats\<close>
  "float_mul x y = to_double (to_double x * to_double y)"

text \<open>
  The values a state-attribute dictionary holds: a float (a rounded confidence), a list
  of strings (the targets) or a string (the time stamp).
\<close>

datatype py_value = PyFloat real | PyList "string list" | PyStr string

section \<open>The detection response\<close>

text \<open>
  The response of \<^verbatim>\<open>detect_labels\<close> is a dictionary of nested dictionaries and lists;
  the code reads \<^verbatim>\<open>Labels\<close>, and of each label \<^verbatim>\<open>Name\<close>, \<^verbatim>\<open>Confidence\<close> and
  \<^verbatim>\<open>Instances\<close>, and of each instance \<^verbatim>\<open>Confidence\<close> and \<^verbatim>\<open>BoundingBox\<close> with its
  \<^verbatim>\<open>Left\<close>, \<^verbatim>\<open>Top\<close>, \<^verbatim>\<open>Width\<close> and \<^verbatim>\<open>Height\<close>.
\<close>

record bounding_box =
  box_Left :: real
  box_Top :: real
  box_Width :: real
  box_Height :: real

record inst =
  inst_Confidence :: real
  inst_BoundingBox :: bounding_box

record label =
  label_Name :: string
  label_Confidence :: real
  label_Instances :: "inst list"

record response =
  Labels :: "label list"

section \<open>The response parser\<close>

text \<open>
  \<^verbatim>\<open>get_object_instances\<close>: the loop returns at the first label whose lowered name is
  the lowered target, with the instances of that label whose confidence is above the
  threshold; after the loop it returns the empty list.
\<close>

fun get_object_instances_loop :: "label list \<Rightarrow> string \<Rightarrow> real \<Rightarrow> inst list" where
  "get_object_instances_loop [] target confidence_threshold = []"
| "get_object_instances_loop (l # ls) target confidence_threshold =
     (if lower (label_Name l) = lower target
      then filter (\<lambda>i. inst_Confidence i > confidence_threshold) (label_Instances l)
      else get_object_instances_loop ls target confidence_threshold)"

definition get_object_instances :: "response \<Rightarrow> string \<Rightarrow> real \<Rightarrow> inst list" where
  "get_object_instances response target confidence_threshold =
     get_object_instances_loop (Labels response) target confidence_threshold"

text \<open>
  \<^verbatim>\<open>get_objects\<close>: the dictionary comprehension stores one entry per label that has an
  instance, in the order of the labels, a later entry replacing an earlier one of the
  same key.
\<close>

fun get_objects_loop :: "label list \<Rightarrow> (string \<rightharpoonup> py_value) \<Rightarrow> (string \<rightharpoonup> py_value)" where
  "get_objects_loop [] d = d"
| "get_objects_loop (l # ls) d =
     get_objects_loop ls
       (if length (label_Instances l) > 0
        then d(lower (label_Name l) \<mapsto> PyFloat (py_round1 (label_Confidence l)))
        else d)"

definition get_objects :: "response \<Rightarrow> (string \<rightharpoonup> py_value)" where
  "get_objects response = get_objects_loop (Labels response) Map.empty"

section \<open>The file name sanitizer\<close>

definition get_valid_filename :: "string \<Rightarrow> string" where
  "get_valid_filename name =
     re_sub (\<lambda>c. \<not> (c = CHR ''-'' \<or> is_word c \<or> c = CHR ''.'')) ''''
       (replace (strip name) CHR '' '' ''_'')"

text \<open>
  The sanitizer as the specification words it: strip the white space at both ends,
  turn each space into an underscore, keep the word characters, hyphens and periods.
\<close>

definition sanitizeFilename :: "string \<Rightarrow> string" where
  "sanitizeFilename name =
     filter (\<lambda>c. is_word c \<or> c = CHR ''-'' \<or> c = CHR ''.'')
       (map (\<lambda>c. if c = CHR '' '' then CHR ''_'' else c)
          (rev (dropWhile isspace (rev (dropWhile isspace name)))))"

section \<open>Exceptions, the log, text formatting\<close>

text \<open>
  An exception is a value. \<open>OtherError\<close> stands for an exception of any class the
  component does not name, given by the name of its class.
\<close>

datatype exn =
  KeyError | IndexError | UnidentifiedImageError | OSError
  | Exception string | OtherError string

datatype level = DEBUG | INFO | WARNING

type_synonym log_record = "level \<times> string"

definition digit_char :: "nat \<Rightarrow> char" where
  "digit_char d = char_of (48 + d)"

fun str_nat :: "nat \<Rightarrow> string" where
  "str_nat n = (if n < 10 then [digit_char n] else str_nat (n div 10) @ [digit_char (n mod 10)])"

declare str_nat.simps [simp del]

definition str_int :: "int \<Rightarrow> string" where
  \<comment> \<open>\<^verbatim>\<open>str\<close> of an integer, as \<^verbatim>\<open>"{}".format\<close> prints it\<close>
  "str_int i = (if i < 0 then CHR ''-'' # str_nat (nat (- i)) else str_nat (nat i))"

definition format_1f :: "real \<Rightarrow> string" where
  \<comment> \<open>the format \<^verbatim>\<open>{x:.1f}\<close>\<close>
  "format_1f x =
     (let q = nat (round_half_even (\<bar>x\<bar> * 10))
      in (if x < 0 then ''-'' else '''') @ str_nat (q div 10) @ ''.'' @ str_nat (q mod 10))"

definition str_option :: "string option \<Rightarrow> string" where
  \<comment> \<open>how an f-string prints a value that is \<^verbatim>\<open>None\<close> or a string\<close>
  "str_option v = (case v of None \<Rightarrow> ''None'' | Some s \<Rightarrow> s)"

subsection \<open>The time stamp\<close>

record datetime =
  dt_year :: nat
  dt_month :: nat
  dt_day :: nat
  dt_hour :: nat
  dt_minute :: nat
  dt_second :: nat

definition DATETIME_FORMAT :: string where
  "DATETIME_FORMAT = ''%Y-%m-%d_%H:%M:%S''"

definition zero_pad :: "nat \<Rightarrow> string \<Rightarrow> string" where
  "zero_pad w s = replicate (w - length s) CHR ''0'' @ s"

definition directive :: "char \<Rightarrow> datetime \<Rightarrow> string" where
  \<comment> \<open>the six directives of \<open>DATETIME_FORMAT\<close>, the year printed with four digits as it
      is for the years 1000 to 9999; any other directive is left as it is written\<close>
  "directive d dt =
     (if d = CHR ''Y'' then zero_pad 4 (str_nat (dt_year dt))
      else if d = CHR ''m'' then zero_pad 2 (str_nat (dt_month dt))
      else if d = CHR ''d'' then zero_pad 2 (str_nat (dt_day dt))
      else if d = CHR ''H'' then zero_pad 2 (str_nat (dt_hour dt))
      else if d = CHR ''M'' then zero_pad 2 (str_nat (dt_minute dt))
      else if d = CHR ''S'' then zero_pad 2 (str_nat (dt_second dt))
      else [CHR ''%'', d])"

fun strftime :: "string \<Rightarrow> datetime \<Rightarrow> string" where
  "strftime [] dt = []"
| "strftime [c] dt = [c]"
| "strftime (c # d # cs) dt =
     (if c = CHR ''%'' then directive d dt @ strftime cs dt else c # strftime (d # cs) dt)"

subsection \<open>Paths, images, files\<close>

type_synonym path = string

definition truediv :: "path \<Rightarrow> string \<Rightarrow> path" where
  \<comment> \<open>the operator \<^verbatim>\<open>/\<close> of \<^verbatim>\<open>pathlib\<close>: a relative segment goes below the directory,
      an absolute one replaces it\<close>
  "truediv directory seg =
     (if seg \<noteq> [] \<and> hd seg = CHR ''/'' then seg else directory @ ''/'' @ seg)"

type_synonym bytes = "8 word list"

record image =
  img_width :: int
  img_height :: int
  img_raster :: bytes

text \<open>
  One call \<^verbatim>\<open>draw_box(draw, box, img_width, img_height, text=...)\<close>, by its arguments.
\<close>

record draw_box_call =
  call_box :: "real \<times> real \<times> real \<times> real"
  call_img_width :: int
  call_img_height :: int
  call_text :: string

text \<open>A saved file holds the decoded image and the boxes drawn on it, in order.\<close>

type_synonym saved_image = "image \<times> draw_box_call list"

record world =
  w_files :: "path \<rightharpoonup> saved_image"
  w_log :: "log_record list"

text \<open>
  Modelled from the spec: \<^verbatim>\<open>draw_box\<close> is \<^verbatim>\<open>homeassistant.util.pil.draw_box\<close>, a helper of
  the host framework that is not in the repository. The rectangle it draws for a box
  \<open>(y_min, x_min, y_max, x_max)\<close> is the box multiplied by the width and the height of
  the image, given here as (left, top, right, bottom). The products are products of
  floats, the width and the height being integers turned into floats.
\<close>

definition draw_box_rectangle :: "draw_box_call \<Rightarrow> real \<times> real \<times> real \<times> real" where
  "draw_box_rectangle c =
     (case call_box c of (y_min, x_min, y_max, x_max) \<Rightarrow>
        (float_mul x_min (of_int (call_img_width c)), float_mul y_min (of_int (call_img_height c)),
         float_mul x_max (of_int (call_img_width c)), float_mul y_max (of_int (call_img_height c))))"

section \<open>The collaborators outside the component\<close>

record aws_config =
  region_name :: string
  aws_access_key_id :: string
  aws_secret_access_key :: string

datatype client = Client aws_config

text \<open>
  What the SDK, the host framework, the clock, the image library and the file system
  answer is a parameter of the model. Each call either returns or raises.
  \<^item> \<open>boto3_client n cfg\<close>: \<^verbatim>\<open>boto3.client("rekognition", **cfg)\<close>, when \<open>n\<close> calls were
    made before it;
  \<^item> \<open>split_entity_id\<close>: the host's function of that name;
  \<^item> \<open>detect_labels c image\<close>: \<^verbatim>\<open>c.detect_labels(Image={"Bytes": image})\<close>;
  \<^item> \<open>now\<close>: \<^verbatim>\<open>dt_util.now()\<close>;
  \<^item> \<open>image_open image\<close>: \<^verbatim>\<open>Image.open(io.BytesIO(bytearray(image))).convert("RGB")\<close>;
  \<^item> \<open>save_raises p\<close>: the exception \<^verbatim>\<open>img.save(p)\<close> raises, \<open>None\<close> when it writes.
\<close>

record host =
  boto3_client :: "nat \<Rightarrow> aws_config \<Rightarrow> exn + client"
  split_entity_id :: "string \<Rightarrow> exn + string list"
  detect_labels :: "client \<Rightarrow> bytes \<Rightarrow> exn + response"
  now :: datetime
  image_open :: "bytes \<Rightarrow> exn + image"
  save_raises :: "path \<Rightarrow> exn option"

section \<open>The detector entity\<close>

record entity =
  self_client :: client
  self_region :: string
  self_targets :: "string list"
  self_targets_found :: "int list"
  self_confidence :: real
  self_save_file_folder :: "path option"
  self_save_timestamped_file :: bool
  self_camera_entity :: string
  self_name :: string
  self_state :: "int option"
  self_last_detection :: "string option"
  self_objects :: "string \<rightharpoonup> py_value"
  self_labels :: "(string \<rightharpoonup> py_value) option"

definition truthy :: "string option \<Rightarrow> bool" where
  \<comment> \<open>the truth value of \<^verbatim>\<open>None\<close>, of a string, and of a path (a path has a non-empty text)\<close>
  "truthy v = (case v of None \<Rightarrow> False | Some s \<Rightarrow> s \<noteq> [])"

definition ObjectDetection_init ::
  "host \<Rightarrow> client \<Rightarrow> string \<Rightarrow> string list \<Rightarrow> real \<Rightarrow> path option \<Rightarrow> bool \<Rightarrow> string
     \<Rightarrow> string option \<Rightarrow> exn + entity" where
  "ObjectDetection_init h client region targets confidence save_file_folder
       save_timestamped_file camera_entity name =
     (let name_result =
        (if truthy name then Inr (the name)
         else (case split_entity_id h camera_entity of
                 Inl e \<Rightarrow> Inl e
               | Inr parts \<Rightarrow>
                   if 1 < length parts then Inr (''rekognition_'' @ parts ! 1)
                   else Inl IndexError))
      in case name_result of
           Inl e \<Rightarrow> Inl e
         | Inr n \<Rightarrow>
             Inr \<lparr>self_client = client, self_region = region, self_targets = targets,
                  self_targets_found = replicate (length targets) 0,
                  self_confidence = confidence, self_save_file_folder = save_file_folder,
                  self_save_timestamped_file = save_timestamped_file,
                  self_camera_entity = camera_entity, self_name = n,
                  self_state = None, self_last_detection = None,
                  self_objects = Map.empty, self_labels = None\<rparr>)"

subsection \<open>The annotator\<close>

text \<open>
  The two loops of \<^verbatim>\<open>save_image\<close>, collecting the calls of \<^verbatim>\<open>draw_box\<close> in order. A
  label below the confidence, or whose lowered name is not a target, is skipped.
\<close>

fun draw_instances ::
  "string \<Rightarrow> real \<Rightarrow> image \<Rightarrow> inst list \<Rightarrow> draw_box_call list \<Rightarrow> draw_box_call list" where
  "draw_instances object_name label_conf img [] drawn = drawn"
| "draw_instances object_name label_conf img (instance # rest) drawn =
     (let box = inst_BoundingBox instance;
          x = box_Left box; y = box_Top box; w = box_Width box; h = box_Height box;
          x_max = float_add x w; y_max = float_add y h;
          box_label = object_name @ '': '' @ format_1f label_conf @ ''%''
      in draw_instances object_name label_conf img rest
           (drawn @ [\<lparr>call_box = (y, x, y_max, x_max), call_img_width = img_width img,
                      call_img_height = img_height img, call_text = box_label\<rparr>]))"

fun draw_labels ::
  "string list \<Rightarrow> real \<Rightarrow> image \<Rightarrow> label list \<Rightarrow> draw_box_call list \<Rightarrow> draw_box_call list" where
  "draw_labels targets confidence img [] drawn = drawn"
| "draw_labels targets confidence img (l # ls) drawn =
     (let object_name = lower (label_Name l)
      in if label_Confidence l < confidence \<or> object_name \<notin> set targets
         then draw_labels targets confidence img ls drawn
         else draw_labels targets confidence img ls
                (draw_instances object_name (label_Confidence l) img (label_Instances l) drawn))"

definition img_save :: "host \<Rightarrow> saved_image \<Rightarrow> path \<Rightarrow> world \<Rightarrow> exn option \<times> world" where
  "img_save h img p w =
     (case save_raises h p of
        Some e \<Rightarrow> (Some e, w)
      | None \<Rightarrow> (None, w\<lparr>w_files := (w_files w)(p \<mapsto> img)\<rparr>))"

text \<open>
  \<^verbatim>\<open>save_image\<close> returns the exception that leaves it, if any, and the files and the log
  after it. The parameter \<^verbatim>\<open>camera_entity\<close> is not read: the names come from
  \<^verbatim>\<open>self._name\<close>. The parameter \<^verbatim>\<open>image\<close> is written \<open>image_bytes\<close>.
\<close>

definition save_image ::
  "host \<Rightarrow> entity \<Rightarrow> bytes \<Rightarrow> response \<Rightarrow> string list \<Rightarrow> real \<Rightarrow> path \<Rightarrow> string \<Rightarrow> world
     \<Rightarrow> exn option \<times> world" where
  "save_image h self image_bytes response targets confidence directory camera_entity w =
     (case image_open h image_bytes of
        Inl e \<Rightarrow>
          if e = UnidentifiedImageError
          then (None, w\<lparr>w_log := w_log w @
                  [(WARNING, ''Rekognition unable to process image, bad data'')]\<rparr>)
          else (Some e, w)
      | Inr img \<Rightarrow>
          (let drawn = draw_labels targets confidence img (Labels response) [];
               latest_save_path =
                 truediv directory (lower (get_valid_filename (self_name self)) @ ''_latest.jpg'')
           in case img_save h (img, drawn) latest_save_path w of
                (Some e, w1) \<Rightarrow> (Some e, w1)
              | (None, w1) \<Rightarrow>
                  if self_save_timestamped_file self
                  then (let timestamp_save_path =
                              truediv directory
                                (self_name self @ ''_'' @ str_option (self_last_detection self)
                                 @ ''.jpg'')
                        in case img_save h (img, drawn) timestamp_save_path w1 of
                             (Some e, w2) \<Rightarrow> (Some e, w2)
                           | (None, w2) \<Rightarrow>
                               (None, w2\<lparr>w_log := w_log w2 @
                                  [(INFO, ''Rekognition saved file '' @ timestamp_save_path)]\<rparr>))
                  else (None, w1)))"

subsection \<open>Processing an image\<close>

text \<open>
  The loop over \<^verbatim>\<open>enumerate(self._targets)\<close>. The list \<^verbatim>\<open>_targets_found\<close> was made with
  one entry per target just before, so the index is in range.
\<close>

fun count_targets :: "response \<Rightarrow> real \<Rightarrow> (nat \<times> string) list \<Rightarrow> int list \<Rightarrow> int list" where
  "count_targets response confidence [] found = found"
| "count_targets response confidence ((i, target) # rest) found =
     count_targets response confidence rest
       (found[i := int (length (get_object_instances response target confidence))])"

text \<open>
  \<^verbatim>\<open>process_image\<close> returns the exception that leaves it, if any, the entity and the
  world after it. An exception of \<^verbatim>\<open>detect_labels\<close> or of \<^verbatim>\<open>save_image\<close> leaves the
  entity as the statements before it have set it.
\<close>

definition process_image :: "host \<Rightarrow> entity \<Rightarrow> bytes \<Rightarrow> world \<Rightarrow> exn option \<times> entity \<times> world" where
  "process_image h self image_bytes w =
     (let self1 = self\<lparr>self_state := None, self_labels := Some Map.empty,
                       self_targets_found := replicate (length (self_targets self)) 0\<rparr>
      in case detect_labels h (self_client self1) image_bytes of
           Inl e \<Rightarrow> (Some e, self1, w)
         | Inr response \<Rightarrow>
             (let self2 = self1\<lparr>self_objects := get_objects response\<rparr>;
                  self3 = self2\<lparr>self_targets_found :=
                            count_targets response (self_confidence self2)
                              (enumerate 0 (self_targets self2)) (self_targets_found self2)\<rparr>;
                  total = sum_list (self_targets_found self3);
                  self4 = self3\<lparr>self_state := Some total\<rparr>;
                  self5 = (if total > 0
                           then self4\<lparr>self_last_detection :=
                                  Some (strftime DATETIME_FORMAT (now h))\<rparr>
                           else self4)
              in if truthy (self_save_file_folder self5) \<and> total > 0
                 then (case save_image h self5 image_bytes response (self_targets self5)
                              (self_confidence self5) (the (self_save_file_folder self5))
                              (self_name self5) w of
                         (r, w') \<Rightarrow> (r, self5, w'))
                 else (None, self5, w)))"

text \<open>
  \<^verbatim>\<open>device_state_attributes\<close> returns the dictionary \<^verbatim>\<open>self._objects\<close> itself, after
  storing the targets and the time stamp in it; so the entity's dictionary holds them
  afterwards too.
\<close>

definition device_state_attributes :: "entity \<Rightarrow> (string \<rightharpoonup> py_value) \<times> entity" where
  "device_state_attributes self =
     (let attr = (self_objects self)(''targets'' \<mapsto> PyList (self_targets self));
          attr' = (if truthy (self_last_detection self)
                   then attr(''last_target_detection'' \<mapsto> PyStr (the (self_last_detection self)))
                   else attr)
      in (attr', self\<lparr>self_objects := attr'\<rparr>))"

definition state :: "entity \<Rightarrow> int option" where
  "state self = self_state self"

text \<open>
  The host calls \<^verbatim>\<open>process_image\<close> once per image; each call has its own answers of the
  collaborators. An exception of a call ends that call only.
\<close>

fun process_images :: "entity \<Rightarrow> world \<Rightarrow> (host \<times> bytes) list \<Rightarrow> entity \<times> world" where
  "process_images self w [] = (self, w)"
| "process_images self w ((h, image_bytes) # rest) =
     (case process_image h self image_bytes w of
        (r, self', w') \<Rightarrow> process_images self' w' rest)"

section \<open>Setting the platform up\<close>

record config =
  conf_region_name :: string
  conf_aws_access_key_id :: string
  conf_aws_secret_access_key :: string
  conf_targets :: "string list"
  conf_save_file_folder :: "string option"
  conf_save_timestamped_file :: bool
  conf_boto_retries :: int
  conf_confidence :: real
  conf_source :: "(string \<times> string option) list"

text \<open>
  The variables of the retry loop, with two counters that the code does not keep: the
  calls of \<^verbatim>\<open>boto3.client\<close> and of \<^verbatim>\<open>time.sleep(1)\<close> made so far.
\<close>

record loop_state =
  retries :: int
  success :: bool
  client_var :: "client option"
  calls :: nat
  sleeps :: nat
  logged :: "log_record list"

function client_loop :: "host \<Rightarrow> aws_config \<Rightarrow> int \<Rightarrow> loop_state \<Rightarrow> exn option \<times> loop_state" where
  "client_loop h cfg boto_retries s =
     (if retries s \<le> boto_retries
      then (case boto3_client h (calls s) cfg of
              Inr c \<Rightarrow> (None, s\<lparr>client_var := Some c, success := True, calls := Suc (calls s)\<rparr>)
            | Inl e \<Rightarrow>
                if e = KeyError
                then client_loop h cfg boto_retries
                       (s\<lparr>logged := logged s @
                            [(INFO, ''boto3 client failed, retries='' @ str_int (retries s))],
                          retries := retries s + 1, calls := Suc (calls s),
                          sleeps := Suc (sleeps s)\<rparr>)
                else (Some e, s\<lparr>calls := Suc (calls s)\<rparr>))
      else (None, s))"
  by pat_completeness auto
termination
  by (relation "measure (\<lambda>(h, cfg, boto_retries, s). nat (boto_retries + 1 - retries s))") auto

declare client_loop.simps [simp del]

fun make_entities ::
  "host \<Rightarrow> client \<Rightarrow> config \<Rightarrow> string list \<Rightarrow> path option \<Rightarrow> (string \<times> string option) list
     \<Rightarrow> entity list \<Rightarrow> exn + entity list" where
  "make_entities h c conf targets folder [] entities = Inr entities"
| "make_entities h c conf targets folder ((entity_id, name) # rest) entities =
     (case ObjectDetection_init h c (conf_region_name conf) targets (conf_confidence conf)
             folder (conf_save_timestamped_file conf) entity_id name of
        Inl e \<Rightarrow> Inl e
      | Inr ent \<Rightarrow> make_entities h c conf targets folder rest (entities @ [ent]))"

text \<open>
  \<^verbatim>\<open>setup_platform\<close> returns the exception it raises or the entities it hands to
  \<^verbatim>\<open>add_devices\<close>, and the state of the retry loop at its end.
\<close>

definition setup_platform :: "host \<Rightarrow> config \<Rightarrow> (exn + entity list) \<times> loop_state" where
  "setup_platform h conf =
     (let log0 = [(DEBUG, ''boto_retries setting is '' @ str_int (conf_boto_retries conf))];
          cfg = \<lparr>region_name = conf_region_name conf,
                 aws_access_key_id = conf_aws_access_key_id conf,
                 aws_secret_access_key = conf_aws_secret_access_key conf\<rparr>
      in case client_loop h cfg (conf_boto_retries conf)
                \<lparr>retries = 0, success = False, client_var = None, calls = 0, sleeps = 0,
                 logged = log0\<rparr> of
           (Some e, s) \<Rightarrow> (Inl e, s)
         | (None, s) \<Rightarrow>
             if \<not> success s
             then (Inl (Exception
                     (''Failed to create boto3 client. Maybe try increasing ''
                      @ ''the boto_retries setting. Retry counter was '' @ str_int (retries s))), s)
             else (make_entities h (the (client_var s)) conf (map lower (conf_targets conf))
                     (conf_save_file_folder conf) (conf_source conf) [], s))"

section \<open>Example values\<close>

definition example_box :: bounding_box where
  "example_box = \<lparr>box_Left = 0.1, box_Top = 0.1, box_Width = 0.2, box_Height = 0.3\<rparr>"

text \<open>The response of the end-to-end example: one label, one instance.\<close>

definition person_response :: response where
  "person_response =
     \<lparr>Labels = [\<lparr>label_Name = ''Person'', label_Confidence = 98.2,
                  label_Instances = [\<lparr>inst_Confidence = 98.2, inst_BoundingBox = example_box\<rparr>]\<rparr>]\<rparr>"

text \<open>A response with an instance whose confidence is exactly 80.\<close>

definition boundary_response :: response where
  "boundary_response =
     \<lparr>Labels = [\<lparr>label_Name = ''Car'', label_Confidence = 90,
                  label_Instances = [\<lparr>inst_Confidence = 95, inst_BoundingBox = example_box\<rparr>]\<rparr>,
                \<lparr>label_Name = ''Person'', label_Confidence = 98.2,
                  label_Instances = [\<lparr>inst_Confidence = 80, inst_BoundingBox = example_box\<rparr>,
                                     \<lparr>inst_Confidence = 98.2, inst_BoundingBox = example_box\<rparr>]\<rparr>]\<rparr>"

text \<open>A response with two labels of one lowered name, and a label without instances.\<close>

definition duplicate_response :: response where
  "duplicate_response =
     \<lparr>Labels = [\<lparr>label_Name = ''Person'', label_Confidence = 98.26,
                  label_Instances = [\<lparr>inst_Confidence = 98, inst_BoundingBox = example_box\<rparr>]\<rparr>,
                \<lparr>label_Name = ''Dog'', label_Confidence = 50, label_Instances = []\<rparr>,
                \<lparr>label_Name = ''PERSON'', label_Confidence = 70.25,
                  label_Instances = [\<lparr>inst_Confidence = 70, inst_BoundingBox = example_box\<rparr>]\<rparr>]\<rparr>"

text \<open>The state the entity shows after each call of a run.\<close>

fun states_after :: "entity \<Rightarrow> world \<Rightarrow> (host \<times> bytes) list \<Rightarrow> int option list" where
  "states_after self w [] = []"
| "states_after self w ((h, image_bytes) # rest) =
     (case process_image h self image_bytes w of
        (r, self', w') \<Rightarrow> state self' # states_after self' w' rest)"

definition example_client :: client where
  "example_client =
     Client \<lparr>region_name = ''us-east-1'', aws_access_key_id = ''id'',
             aws_secret_access_key = ''secret''\<rparr>"

definition example_datetime :: datetime where
  "example_datetime =
     \<lparr>dt_year = 2020, dt_month = 3, dt_day = 7, dt_hour = 9, dt_minute = 5, dt_second = 0\<rparr>"

definition example_image :: image where
  "example_image = \<lparr>img_width = 640, img_height = 480, img_raster = []\<rparr>"

definition empty_response :: response where
  "empty_response = \<lparr>Labels = []\<rparr>"

text \<open>A host where every call succeeds and the service answers with one person.\<close>

definition example_host :: host where
  "example_host =
     \<lparr>boto3_client = (\<lambda>n cfg. Inr (Client cfg)),
      split_entity_id = (\<lambda>s. Inr [''camera'', ''front'']),
      detect_labels = (\<lambda>c b. Inr person_response),
      now = example_datetime,
      image_open = (\<lambda>b. Inr example_image),
      save_raises = (\<lambda>p. None)\<rparr>"

text \<open>The same host, a minute later, when the service finds nothing.\<close>

definition quiet_host :: host where
  "quiet_host =
     example_host\<lparr>detect_labels := (\<lambda>c b. Inr empty_response),
                  now := example_datetime\<lparr>dt_minute := 6\<rparr>\<rparr>"

definition example_entity :: entity where
  "example_entity =
     \<lparr>self_client = example_client, self_region = ''us-east-1'', self_targets = [''person''],
      self_targets_found = [0], self_confidence = 80,
      self_save_file_folder = Some ''/config/www'', self_save_timestamped_file = True,
      self_camera_entity = ''camera.front'', self_name = ''Front Door'',
      self_state = None, self_last_detection = None, self_objects = Map.empty,
      self_labels = None\<rparr>"

definition empty_world :: world where
  "empty_world = \<lparr>w_files = Map.empty, w_log = []\<rparr>"

fun Client_config :: "client \<Rightarrow> aws_config" where
  "Client_config (Client cfg) = cfg"

definition example_config :: config where
  "example_config =
     \<lparr>conf_region_name = ''us-east-1'', conf_aws_access_key_id = ''id'',
      conf_aws_secret_access_key = ''secret'', conf_targets = [''Person''],
      conf_save_file_folder = Some ''/config/www'', conf_save_timestamped_file = True,
      conf_boto_retries = 2, conf_confidence = 80,
      conf_source = [(''camera.front'', Some ''Front Door'')]\<rparr>"

text \<open>A host where \<^verbatim>\<open>boto3.client\<close> raises \<^verbatim>\<open>KeyError\<close> at every call.\<close>

definition keyerror_host :: host where
  "keyerror_host = example_host\<lparr>boto3_client := (\<lambda>n cfg. Inl KeyError)\<rparr>"

text \<open>A host where \<^verbatim>\<open>boto3.client\<close> raises an exception of another class at every call.\<close>

definition refusing_host :: host where
  "refusing_host = example_host\<lparr>boto3_client := (\<lambda>n cfg. Inl (OtherError ''ValueError''))\<rparr>"

text \<open>A host where the image library cannot identify the image.\<close>

definition unidentified_host :: host where
  "unidentified_host = example_host\<lparr>image_open := (\<lambda>b. Inl UnidentifiedImageError)\<rparr>"

text \<open>
  A host where the image library identifies the image and then fails to read it, as it
  does with \<^verbatim>\<open>OSError\<close> on a file that is cut short.
\<close>

definition truncated_host :: host where
  "truncated_host = example_host\<lparr>image_open := (\<lambda>b. Inl OSError)\<rparr>"

section \<open>Properties of the response parser\<close>

lemma lower_Person: "lower ''Person'' = ''person''"
  by code_simp

lemma lower_PERSON: "lower ''PERSON'' = ''person''"
  by code_simp

lemma lower_person: "lower ''person'' = ''person''"
  by code_simp

lemma lower_Car: "lower ''Car'' = ''car''"
  by code_simp

lemma lower_Dog: "lower ''Dog'' = ''dog''"
  by code_simp

lemma get_object_instances_loop_find:
  "get_object_instances_loop ls target thr =
     (case find (\<lambda>l. lower (label_Name l) = lower target) ls of
        None \<Rightarrow> []
      | Some l \<Rightarrow> filter (\<lambda>i. thr < inst_Confidence i) (label_Instances l))"
  by (induction ls) simp_all

text \<open>
  C1: the instances counted for a target are exactly the instances, of the first label
  whose lowered name equals the lowered target, whose confidence is strictly greater
  than the threshold (none when there is no such label); no counted instance has a
  confidence equal to the threshold.
\<close>

theorem get_object_instances_strict:
  "get_object_instances response target thr =
     (case find (\<lambda>l. lower (label_Name l) = lower target) (Labels response) of
        None \<Rightarrow> []
      | Some l \<Rightarrow> filter (\<lambda>i. thr < inst_Confidence i) (label_Instances l))
   \<and> length (get_object_instances response target thr) =
     (case find (\<lambda>l. lower (label_Name l) = lower target) (Labels response) of
        None \<Rightarrow> 0
      | Some l \<Rightarrow> length (filter (\<lambda>i. thr < inst_Confidence i) (label_Instances l)))
   \<and> (\<forall>i \<in> set (get_object_instances response target thr).
         thr < inst_Confidence i \<and> inst_Confidence i \<noteq> thr)"
  unfolding get_object_instances_def get_object_instances_loop_find
  by (auto split: option.splits)

text \<open>
  Of the two instances of the label Person, the one at exactly 80 is not counted at the
  threshold 80.
\<close>

theorem get_object_instances_strict_witness:
  "map inst_Confidence (label_Instances (Labels boundary_response ! 1)) = [80, 98.2]
   \<and> map inst_Confidence (get_object_instances boundary_response ''PERSON'' 80) = [98.2]
   \<and> length (get_object_instances boundary_response ''PERSON'' 80) = 1"
  using get_object_instances_strict [of boundary_response "''PERSON''" 80]
  by (simp add: boundary_response_def lower_Person lower_PERSON lower_Car)

text \<open>
  C2: when no label of the response has a lowered name equal to the lowered target, the
  instances found are the empty list and their count is 0. The function has no branch
  that raises.
\<close>

theorem get_object_instances_absent:
  "\<forall>l \<in> set (Labels response). lower (label_Name l) \<noteq> lower target \<Longrightarrow>
     get_object_instances response target thr = []
     \<and> length (get_object_instances response target thr) = 0"
proof -
  assume "\<forall>l \<in> set (Labels response). lower (label_Name l) \<noteq> lower target"
  then have "find (\<lambda>l. lower (label_Name l) = lower target) (Labels response) = None"
    by (simp add: find_None_iff)
  then show ?thesis
    by (simp add: get_object_instances_def get_object_instances_loop_find)
qed

theorem get_object_instances_absent_witness:
  "map (\<lambda>l. lower (label_Name l)) (Labels boundary_response) = [''car'', ''person'']
   \<and> lower ''Dog'' = ''dog''
   \<and> get_object_instances boundary_response ''Dog'' 80 = []
   \<and> length (get_object_instances boundary_response ''Dog'' 80) = 0"
proof -
  have h: "\<forall>l \<in> set (Labels boundary_response). lower (label_Name l) \<noteq> lower ''Dog''"
    by (simp add: boundary_response_def lower_Person lower_Car lower_Dog)
  show ?thesis
    using get_object_instances_absent [OF h, of 80]
    by (simp add: boundary_response_def lower_Person lower_Car lower_Dog)
qed

section \<open>Properties of the detected objects\<close>

lemma find_append_option:
  "find P (xs @ ys) = (case find P xs of None \<Rightarrow> find P ys | Some x \<Rightarrow> Some x)"
  by (induction xs) simp_all

lemma get_objects_loop_lookup:
  "get_objects_loop ls d k =
     (case find (\<lambda>l. lower (label_Name l) = k \<and> label_Instances l \<noteq> []) (rev ls) of
        None \<Rightarrow> d k
      | Some l \<Rightarrow> Some (PyFloat (py_round1 (label_Confidence l))))"
proof (induction ls arbitrary: d)
  case Nil
  then show ?case by simp
next
  case (Cons l ls)
  show ?case
    by (simp add: Cons.IH find_append_option split: option.splits)
qed

lemma round_half_even_bounds: "\<bar>of_int (round_half_even y) - y\<bar> \<le> 1 / 2"
  unfolding round_half_even_def Let_def
  by (auto simp: abs_le_iff)

lemma py_round1_close: "\<bar>py_round1 x - x\<bar> \<le> 1 / 20"
  using round_half_even_bounds [of "x * 10"] unfolding py_round1_def
  by (simp add: abs_le_iff field_simps)

theorem get_objects_last_wins:
  "get_objects response k =
     (case find (\<lambda>l. lower (label_Name l) = k \<and> label_Instances l \<noteq> [])
             (rev (Labels response)) of
        None \<Rightarrow> None
      | Some l \<Rightarrow> Some (PyFloat (py_round1 (label_Confidence l))))
   \<and> dom (get_objects response) =
       {lower (label_Name l) | l. l \<in> set (Labels response) \<and> label_Instances l \<noteq> []}
   \<and> (\<exists>n :: int. py_round1 x = of_int n / 10)
   \<and> \<bar>py_round1 x - x\<bar> \<le> 1 / 20"
proof -
  have look: "get_objects response k' =
     (case find (\<lambda>l. lower (label_Name l) = k' \<and> label_Instances l \<noteq> [])
             (rev (Labels response)) of
        None \<Rightarrow> None
      | Some l \<Rightarrow> Some (PyFloat (py_round1 (label_Confidence l))))" for k'
    by (simp add: get_objects_def get_objects_loop_lookup)
  have "k' \<in> dom (get_objects response) \<longleftrightarrow>
          (\<exists>l \<in> set (Labels response). lower (label_Name l) = k' \<and> label_Instances l \<noteq> [])" for k'
  proof -
    have "k' \<in> dom (get_objects response) \<longleftrightarrow>
            find (\<lambda>l. lower (label_Name l) = k' \<and> label_Instances l \<noteq> [])
              (rev (Labels response)) \<noteq> None"
      by (simp add: look dom_def split: option.splits)
    then show ?thesis by (auto simp: find_None_iff)
  qed
  then have d: "dom (get_objects response) =
       {lower (label_Name l) | l. l \<in> set (Labels response) \<and> label_Instances l \<noteq> []}"
    by (intro set_eqI) auto
  have "\<exists>n :: int. py_round1 x = of_int n / 10"
    unfolding py_round1_def by blast
  with look d py_round1_close show ?thesis by blast
qed

theorem get_objects_last_wins_witness:
  "get_objects duplicate_response ''person'' = Some (PyFloat 70.2)
   \<and> get_objects duplicate_response ''dog'' = None
   \<and> get_objects duplicate_response ''Person'' = None"
proof -
  have 1: "get_objects duplicate_response ''person'' = Some (PyFloat 70.2)"
    using get_objects_last_wins [of duplicate_response "''person''" 0]
    by (simp add: duplicate_response_def lower_Person lower_PERSON lower_Dog
          py_round1_def round_half_even_def Let_def)
  have 2: "get_objects duplicate_response ''dog'' = None"
    using get_objects_last_wins [of duplicate_response "''dog''" 0]
    by (simp add: duplicate_response_def lower_Person lower_PERSON lower_Dog)
  have 3: "get_objects duplicate_response ''Person'' = None"
    using get_objects_last_wins [of duplicate_response "''Person''" 0]
    by (simp add: duplicate_response_def lower_Person lower_PERSON lower_Dog)
  from 1 2 3 show ?thesis by blast
qed

section \<open>Properties of the sanitizer\<close>

lemma lstrip_dropWhile: "lstrip s = dropWhile isspace s"
  by (induction s) simp_all

lemma strip_dropWhile: "strip s = rev (dropWhile isspace (rev (dropWhile isspace s)))"
  by (simp add: strip_def rstrip_def lstrip_dropWhile)

lemma replace_map: "replace s old [new] = map (\<lambda>c. if c = old then new else c) s"
  by (induction s) simp_all

lemma re_sub_filter: "re_sub pat [] s = filter (\<lambda>c. \<not> pat c) s"
  by (induction s) simp_all

theorem get_valid_filename_sanitizeFilename:
  "get_valid_filename name = sanitizeFilename name
   \<and> get_valid_filename '' a b/c*.jpg '' = ''a_bc.jpg''"
proof -
  have "get_valid_filename n = sanitizeFilename n" for n
    unfolding get_valid_filename_def sanitizeFilename_def strip_dropWhile replace_map re_sub_filter
    by (rule filter_cong) auto
  moreover have "get_valid_filename '' a b/c*.jpg '' = ''a_bc.jpg''"
    by code_simp
  ultimately show ?thesis by blast
qed

lemma sanitize_example: "sanitizeFilename [CHR 0x09, CHR ''M'', CHR ''y'', CHR '' '', CHR ''C'', CHR ''a'', CHR ''m'', CHR ''('', CHR ''1'', CHR '')'', CHR ''.'', CHR ''J'', CHR ''P'', CHR ''G'', CHR 0x0A] = ''My_Cam1.JPG''"
  by code_simp

theorem get_valid_filename_sanitizeFilename_witness:
  "get_valid_filename [CHR 0x09, CHR ''M'', CHR ''y'', CHR '' '', CHR ''C'', CHR ''a'', CHR ''m'', CHR ''('', CHR ''1'', CHR '')'', CHR ''.'', CHR ''J'', CHR ''P'', CHR ''G'', CHR 0x0A] = ''My_Cam1.JPG''"
  using get_valid_filename_sanitizeFilename [of "[CHR 0x09, CHR ''M'', CHR ''y'', CHR '' '', CHR ''C'', CHR ''a'', CHR ''m'', CHR ''('', CHR ''1'', CHR '')'', CHR ''.'', CHR ''J'', CHR ''P'', CHR ''G'', CHR 0x0A]"]
  by (simp add: sanitize_example)

section \<open>Properties of processing an image\<close>

lemma process_image_last_detection:
  "self_last_detection (fst (snd (process_image h self b w))) =
     (if \<exists>k>0. state (fst (snd (process_image h self b w))) = Some k
      then Some (strftime DATETIME_FORMAT (now h)) else self_last_detection self)"
  unfolding process_image_def state_def
  by (auto simp: Let_def split: sum.splits prod.splits)

lemma process_images_last_detection:
  "self_last_detection (fst (process_images self w cs)) \<noteq> None \<longleftrightarrow>
     self_last_detection self \<noteq> None \<or> (\<exists>st \<in> set (states_after self w cs). \<exists>k>0. st = Some k)"
proof (induction cs arbitrary: self w)
  case Nil
  then show ?case by simp
next
  case (Cons c cs)
  obtain h b where c: "c = (h, b)" by (cases c)
  obtain r self' w' where p: "process_image h self b w = (r, self', w')"
    by (cases "process_image h self b w")
  have step: "self_last_detection self' \<noteq> None \<longleftrightarrow>
                self_last_detection self \<noteq> None \<or> (\<exists>k>0. state self' = Some k)"
    using process_image_last_detection [of h self b w]
    by (cases "\<exists>k>0. state self' = Some k") (auto simp: p)
  show ?case
    unfolding c using Cons.IH [of self' w'] step by (simp add: p)
qed

lemma init_last_detection:
  "ObjectDetection_init h c region targets confidence folder ts camera_entity name = Inr e \<Longrightarrow>
     self_last_detection e = None \<and> state e = None"
  unfolding ObjectDetection_init_def state_def
  by (auto simp: Let_def split: if_splits sum.splits)

text \<open>
  C10: a new entity has no last-detection time stamp. After any run of
  \<^verbatim>\<open>process_image\<close> calls the time stamp is set exactly when it was set before the run
  or some call of the run ended with a positive count; so a time stamp that is set is
  never reset to \<^verbatim>\<open>None\<close>, whatever the later calls detect or raise, and before the
  first positive count it is \<^verbatim>\<open>None\<close>.
\<close>

theorem last_detection_never_reset:
  "(ObjectDetection_init h c region targets confidence folder ts camera_entity name = Inr e
      \<longrightarrow> self_last_detection e = None)
   \<and> (self_last_detection (fst (process_images self w cs)) \<noteq> None \<longleftrightarrow>
        self_last_detection self \<noteq> None
        \<or> (\<exists>st \<in> set (states_after self w cs). \<exists>k>0. st = Some k))
   \<and> (self_last_detection self \<noteq> None \<longrightarrow>
        self_last_detection (fst (process_images self w cs)) \<noteq> None)"
  using init_last_detection [of h c region targets confidence folder ts camera_entity name e]
    process_images_last_detection [of self w cs]
  by blast

lemma example_init:
  "ObjectDetection_init example_host example_client ''us-east-1'' [''person''] 80
     (Some ''/config/www'') True ''camera.front'' (Some ''Front Door'') = Inr example_entity"
  by (simp add: ObjectDetection_init_def truthy_def example_entity_def)

lemma example_states:
  "states_after example_entity empty_world [(example_host, []), (quiet_host, [])] = [Some 1, Some 0]"
  by code_simp

lemma example_states_quiet:
  "states_after example_entity empty_world [(quiet_host, []), (quiet_host, [])] = [Some 0, Some 0]"
  by code_simp

theorem last_detection_never_reset_witness:
  "ObjectDetection_init example_host example_client ''us-east-1'' [''person''] 80
     (Some ''/config/www'') True ''camera.front'' (Some ''Front Door'') = Inr example_entity
   \<and> self_last_detection example_entity = None
   \<and> states_after example_entity empty_world [(example_host, []), (quiet_host, [])]
       = [Some 1, Some 0]
   \<and> self_last_detection
       (fst (process_images example_entity empty_world [(example_host, []), (quiet_host, [])]))
       \<noteq> None
   \<and> states_after example_entity empty_world [(quiet_host, []), (quiet_host, [])]
       = [Some 0, Some 0]
   \<and> self_last_detection
       (fst (process_images example_entity empty_world [(quiet_host, []), (quiet_host, [])]))
       = None"
proof -
  note t1 = last_detection_never_reset [of example_host example_client "''us-east-1''"
      "[''person'']" 80 "Some ''/config/www''" True "''camera.front''" "Some ''Front Door''"
      example_entity example_entity empty_world "[(example_host, []), (quiet_host, [])]"]
  note t2 = last_detection_never_reset [of example_host example_client "''us-east-1''"
      "[''person'']" 80 "Some ''/config/www''" True "''camera.front''" "Some ''Front Door''"
      example_entity example_entity empty_world "[(quiet_host, []), (quiet_host, [])]"]
  have n: "self_last_detection example_entity = None"
    using t1 example_init by blast
  have a: "self_last_detection
       (fst (process_images example_entity empty_world [(example_host, []), (quiet_host, [])]))
       \<noteq> None"
    using t1 by (simp add: example_states del: process_images.simps states_after.simps)
  have b: "self_last_detection
       (fst (process_images example_entity empty_world [(quiet_host, []), (quiet_host, [])]))
       = None"
    using t2 n by (simp add: example_states_quiet del: process_images.simps states_after.simps)
  from example_init n a b example_states example_states_quiet show ?thesis by blast
qed

text \<open>
  C5: when the service answers with the one label Person (confidence 98.2, one instance
  of confidence 98.2), the targets are \<^verbatim>\<open>["person"]\<close> and the threshold is 80, then after
  \<^verbatim>\<open>process_image\<close> the state is 1 and the attributes map \<^verbatim>\<open>person\<close> to 98.2 and
  \<^verbatim>\<open>targets\<close> to \<^verbatim>\<open>["person"]\<close>, whether or not the annotated image could be saved.
\<close>

theorem process_image_person:
  assumes "detect_labels h (self_client self) image_bytes = Inr person_response"
    and "self_targets self = [''person'']"
    and "self_confidence self = 80"
  shows "state (fst (snd (process_image h self image_bytes w))) = Some 1
    \<and> fst (device_state_attributes (fst (snd (process_image h self image_bytes w)))) ''person''
        = Some (PyFloat 98.2)
    \<and> fst (device_state_attributes (fst (snd (process_image h self image_bytes w)))) ''targets''
        = Some (PyList [''person''])"
proof -
  have inst: "get_object_instances person_response ''person'' 80
                = [\<lparr>inst_Confidence = 98.2, inst_BoundingBox = example_box\<rparr>]"
    by (simp add: get_object_instances_def person_response_def lower_Person lower_person)
  have objs: "get_objects person_response ''person'' = Some (PyFloat 98.2)"
    by (simp add: get_objects_def person_response_def lower_Person
          py_round1_def round_half_even_def Let_def)
  have total: "sum_list (count_targets person_response 80 (enumerate 0 [''person'']) [0]) = 1"
    by (simp add: inst)
  obtain self' where s': "self' = fst (snd (process_image h self image_bytes w))" by simp
  have st: "self_state self' = Some 1" and tg: "self_targets self' = [''person'']"
    and ob: "self_objects self' = get_objects person_response"
    unfolding s' process_image_def using assms total
    by (simp_all add: Let_def split: prod.splits)
  show ?thesis
    unfolding s' [symmetric]
    by (simp add: state_def st device_state_attributes_def Let_def tg ob objs)
qed

theorem process_image_person_witness:
  "detect_labels example_host (self_client example_entity) [] = Inr person_response
   \<and> self_targets example_entity = [''person'']
   \<and> self_confidence example_entity = 80
   \<and> state (fst (snd (process_image example_host example_entity [] empty_world))) = Some 1
   \<and> fst (device_state_attributes
            (fst (snd (process_image example_host example_entity [] empty_world)))) ''person''
        = Some (PyFloat 98.2)
   \<and> fst (device_state_attributes
            (fst (snd (process_image example_host example_entity [] empty_world)))) ''targets''
        = Some (PyList [''person''])"
proof -
  have h1: "detect_labels example_host (self_client example_entity) [] = Inr person_response"
    by (simp add: example_host_def)
  have h2: "self_targets example_entity = [''person'']"
    by (simp add: example_entity_def)
  have h3: "self_confidence example_entity = 80"
    by (simp add: example_entity_def)
  from process_image_person [OF h1 h2 h3, of empty_world] h1 h2 h3 show ?thesis
    by blast
qed

section \<open>Properties of the client retry loop\<close>

lemma client_loop_KeyError:
  "\<forall>n cfg. boto3_client h n cfg = Inl KeyError \<Longrightarrow> retries s \<le> R + 1 \<Longrightarrow>
     fst (client_loop h cfg R s) = None
     \<and> retries (snd (client_loop h cfg R s)) = R + 1
     \<and> calls (snd (client_loop h cfg R s)) = calls s + nat (R + 1 - retries s)
     \<and> sleeps (snd (client_loop h cfg R s)) = sleeps s + nat (R + 1 - retries s)
     \<and> success (snd (client_loop h cfg R s)) = success s"
proof (induction h cfg R s rule: client_loop.induct)
  case (1 h cfg R s)
  show ?case
  proof (cases "retries s \<le> R")
    case True
    let ?s' = "s\<lparr>logged := logged s @
                  [(INFO, ''boto3 client failed, retries='' @ str_int (retries s))],
                retries := retries s + 1, calls := Suc (calls s), sleeps := Suc (sleeps s)\<rparr>"
    have unfold: "client_loop h cfg R s = client_loop h cfg R ?s'"
      using True "1.prems" by (subst client_loop.simps) simp
    have ih: "fst (client_loop h cfg R ?s') = None
       \<and> retries (snd (client_loop h cfg R ?s')) = R + 1
       \<and> calls (snd (client_loop h cfg R ?s')) = calls ?s' + nat (R + 1 - retries ?s')
       \<and> sleeps (snd (client_loop h cfg R ?s')) = sleeps ?s' + nat (R + 1 - retries ?s')
       \<and> success (snd (client_loop h cfg R ?s')) = success ?s'"
      using "1.IH" [OF True _ refl] True "1.prems" by simp
    have arith: "Suc (nat (R + 1 - (retries s + 1))) = nat (R + 1 - retries s)"
      using True by simp
    show ?thesis
      unfolding unfold using ih arith by simp
  next
    case False
    then have "client_loop h cfg R s = (None, s)"
      by (subst client_loop.simps) simp
    then show ?thesis using False "1.prems" by simp
  qed
qed


lemma setup_platform_exhausted:
  assumes "\<forall>n cfg. boto3_client h n cfg = Inl KeyError" and "0 \<le> conf_boto_retries conf"
  shows "calls (snd (setup_platform h conf)) = nat (conf_boto_retries conf) + 1"
    and "sleeps (snd (setup_platform h conf)) = nat (conf_boto_retries conf) + 1"
    and "fst (setup_platform h conf) =
       Inl (Exception (''Failed to create boto3 client. Maybe try increasing ''
              @ ''the boto_retries setting. Retry counter was ''
              @ str_int (conf_boto_retries conf + 1)))"
proof -
  let ?cfg = "\<lparr>region_name = conf_region_name conf,
                aws_access_key_id = conf_aws_access_key_id conf,
                aws_secret_access_key = conf_aws_secret_access_key conf\<rparr>"
  let ?s0 = "\<lparr>retries = 0, success = False, client_var = None, calls = 0, sleeps = 0,
               logged = [(DEBUG, ''boto_retries setting is '' @ str_int (conf_boto_retries conf))]\<rparr>"
  obtain r s where l: "client_loop h ?cfg (conf_boto_retries conf) ?s0 = (r, s)"
    by (cases "client_loop h ?cfg (conf_boto_retries conf) ?s0")
  have "retries ?s0 \<le> conf_boto_retries conf + 1"
    using assms(2) by simp
  from client_loop_KeyError [OF assms(1) this, of ?cfg]
  have r: "r = None" and s: "retries s = conf_boto_retries conf + 1"
    "calls s = nat (conf_boto_retries conf + 1)" "sleeps s = nat (conf_boto_retries conf + 1)"
    "\<not> success s"
    unfolding l by simp_all
  have n: "nat (conf_boto_retries conf + 1) = nat (conf_boto_retries conf) + 1"
    using assms(2) by simp
  show "calls (snd (setup_platform h conf)) = nat (conf_boto_retries conf) + 1"
    unfolding setup_platform_def Let_def l by (simp add: r s n)
  show "sleeps (snd (setup_platform h conf)) = nat (conf_boto_retries conf) + 1"
    unfolding setup_platform_def Let_def l by (simp add: r s n)
  show "fst (setup_platform h conf) =
       Inl (Exception (''Failed to create boto3 client. Maybe try increasing ''
              @ ''the boto_retries setting. Retry counter was ''
              @ str_int (conf_boto_retries conf + 1)))"
    unfolding setup_platform_def Let_def l by (simp add: r s)
qed

text \<open>
  C6, as the claim states it, fails: an exception of \<^verbatim>\<open>boto3.client\<close> that is not a
  \<^verbatim>\<open>KeyError\<close> is not caught by the loop. With two retries configured and a
  constructor that raises \<^verbatim>\<open>ValueError\<close> each time, one call is made, not three.
\<close>

theorem setup_platform_retries_counterexample:
  "conf_boto_retries example_config = 2
   \<and> boto3_client refusing_host 0 (Client_config example_client) = Inl (OtherError ''ValueError'')
   \<and> boto3_client refusing_host 1 (Client_config example_client) = Inl (OtherError ''ValueError'')
   \<and> boto3_client refusing_host 2 (Client_config example_client) = Inl (OtherError ''ValueError'')
   \<and> calls (snd (setup_platform refusing_host example_config)) = 1
   \<and> calls (snd (setup_platform refusing_host example_config)) \<noteq> 2 + 1
   \<and> fst (setup_platform refusing_host example_config) = Inl (OtherError ''ValueError'')"
  by (simp add: setup_platform_def refusing_host_def example_host_def example_config_def
        client_loop.simps)

text \<open>
  C6, amended: for a retry count \<open>R \<ge> 0\<close>, when every call of \<^verbatim>\<open>boto3.client\<close> raises
  \<^verbatim>\<open>KeyError\<close>, exactly \<open>R + 1\<close> calls are made, each followed by a sleep, and
  \<^verbatim>\<open>setup_platform\<close> then raises the exception that names the retry counter \<open>R + 1\<close>.
\<close>

theorem setup_platform_retries:
  "\<forall>n cfg. boto3_client h n cfg = Inl KeyError \<Longrightarrow> 0 \<le> conf_boto_retries conf \<Longrightarrow>
     calls (snd (setup_platform h conf)) = nat (conf_boto_retries conf) + 1
     \<and> sleeps (snd (setup_platform h conf)) = nat (conf_boto_retries conf) + 1
     \<and> fst (setup_platform h conf) =
         Inl (Exception (''Failed to create boto3 client. Maybe try increasing ''
                @ ''the boto_retries setting. Retry counter was ''
                @ str_int (conf_boto_retries conf + 1)))"
  using setup_platform_exhausted [of h conf] by blast

lemma str_int_3: "str_int 3 = ''3''"
  by code_simp

theorem setup_platform_retries_witness:
  "conf_boto_retries example_config = 2
   \<and> boto3_client keyerror_host 0 (Client_config example_client) = Inl KeyError
   \<and> calls (snd (setup_platform keyerror_host example_config)) = 3
   \<and> sleeps (snd (setup_platform keyerror_host example_config)) = 3
   \<and> fst (setup_platform keyerror_host example_config) =
       Inl (Exception (''Failed to create boto3 client. Maybe try increasing the ''
              @ ''boto_retries setting. Retry counter was 3''))"
proof -
  have h1: "\<forall>n cfg. boto3_client keyerror_host n cfg = Inl KeyError"
    by (simp add: keyerror_host_def)
  have h2: "0 \<le> conf_boto_retries example_config"
    by (simp add: example_config_def)
  have r: "conf_boto_retries example_config = 2"
    by (simp add: example_config_def)
  show ?thesis
    using setup_platform_retries [OF h1 h2] h1
    by (simp add: r str_int_3)
qed

section \<open>Properties of the annotator\<close>

lemma draw_instances_map:
  "draw_instances object_name c img insts drawn =
     drawn @ map (\<lambda>i. \<lparr>call_box = (box_Top (inst_BoundingBox i), box_Left (inst_BoundingBox i),
                                   float_add (box_Top (inst_BoundingBox i)) (box_Height (inst_BoundingBox i)),
                                   float_add (box_Left (inst_BoundingBox i)) (box_Width (inst_BoundingBox i))),
                       call_img_width = img_width img, call_img_height = img_height img,
                       call_text = object_name @ '': '' @ format_1f c @ ''%''\<rparr>) insts"
  by (induction insts arbitrary: drawn) (simp_all add: Let_def)

lemma draw_labels_concat:
  "draw_labels targets confidence img labels drawn =
     drawn @ concat (map (\<lambda>l. map (\<lambda>i.
         \<lparr>call_box = (box_Top (inst_BoundingBox i), box_Left (inst_BoundingBox i),
                      float_add (box_Top (inst_BoundingBox i)) (box_Height (inst_BoundingBox i)),
                      float_add (box_Left (inst_BoundingBox i)) (box_Width (inst_BoundingBox i))),
          call_img_width = img_width img, call_img_height = img_height img,
          call_text = lower (label_Name l) @ '': '' @ format_1f (label_Confidence l) @ ''%''\<rparr>)
         (label_Instances l))
       (filter (\<lambda>l. confidence \<le> label_Confidence l \<and> lower (label_Name l) \<in> set targets)
          labels))"
proof (induction labels arbitrary: drawn)
  case Nil
  then show ?case by simp
next
  case (Cons l ls)
  show ?case
  proof (cases "label_Confidence l < confidence \<or> lower (label_Name l) \<notin> set targets")
    case True
    then show ?thesis
      using Cons.IH [of drawn] by (auto simp: Let_def)
  next
    case False
    then show ?thesis
      using Cons.IH by (simp add: Let_def draw_instances_map not_less)
  qed
qed

section \<open>Properties of saving\<close>

lemma lower_char_slash: "lower_char c = CHR ''/'' \<Longrightarrow> c = CHR ''/''"
  unfolding lower_char_def Let_def
  by (auto split: if_splits dest!: arg_cong [where f = "of_char :: char \<Rightarrow> nat"])

lemma is_word_not_slash: "is_word c \<Longrightarrow> c \<noteq> CHR ''/''"
  by (auto simp: is_word_def)

lemma get_valid_filename_filter:
  "get_valid_filename name =
     filter (\<lambda>c. is_word c \<or> c = CHR ''-'' \<or> c = CHR ''.'')
       (map (\<lambda>c. if c = CHR '' '' then CHR ''_'' else c) (strip name))"
  unfolding get_valid_filename_def replace_map re_sub_filter
  by (rule filter_cong) auto

lemma get_valid_filename_no_slash: "CHR ''/'' \<notin> set (lower (get_valid_filename name))"
proof
  assume "CHR ''/'' \<in> set (lower (get_valid_filename name))"
  then obtain c where c: "c \<in> set (get_valid_filename name)" and "lower_char c = CHR ''/''"
    by (auto simp: lower_def)
  then have "c = CHR ''/''" by (simp add: lower_char_slash)
  moreover have "is_word c \<or> c = CHR ''-'' \<or> c = CHR ''.''"
    using c by (simp add: get_valid_filename_filter)
  ultimately show False using is_word_not_slash by auto
qed

lemma latest_segment_no_slash:
  "CHR ''/'' \<notin> set (lower (get_valid_filename name) @ ''_latest.jpg'')"
  using get_valid_filename_no_slash [of name] by simp

lemma truediv_latest:
  "truediv directory (lower (get_valid_filename name) @ ''_latest.jpg'')
     = directory @ ''/'' @ lower (get_valid_filename name) @ ''_latest.jpg''"
proof -
  have "hd (lower (get_valid_filename name) @ ''_latest.jpg'') \<noteq> CHR ''/''"
    using latest_segment_no_slash [of name]
    by (metis append_is_Nil_conv hd_in_set list.discI)
  then show ?thesis by (simp add: truediv_def)
qed

lemma save_image_unidentified:
  "image_open h image_bytes = Inl UnidentifiedImageError \<Longrightarrow>
     save_image h self image_bytes response targets confidence directory cam w =
       (None, w\<lparr>w_log := w_log w @
                 [(WARNING, ''Rekognition unable to process image, bad data'')]\<rparr>)"
  by (simp add: save_image_def)

lemma process_image_without_folder:
  "fst (snd (process_image h self image_bytes w)) =
     (fst (snd (process_image h (self\<lparr>self_save_file_folder := None\<rparr>) image_bytes w)))
       \<lparr>self_save_file_folder := self_save_file_folder self\<rparr>"
  unfolding process_image_def
  by (simp add: Let_def truthy_def split: sum.splits prod.splits)

text \<open>
  C7, amended: when decoding the image raises, whatever the exception, \<^verbatim>\<open>save_image\<close>
  leaves the files as they were, and \<^verbatim>\<open>process_image\<close> leaves the files as they were
  and the entity as it does for an entity with no folder to save to, where no save is
  tried (so the same count, detected objects and time stamp). \<^verbatim>\<open>save_image\<close> raises
  nothing when the exception is \<^verbatim>\<open>UnidentifiedImageError\<close>, and raises the exception
  of the decoding when it is any other; in the first case \<^verbatim>\<open>process_image\<close> ends with
  the same exception or none as for the entity with no folder.
\<close>

theorem save_image_bad_data:
  "image_open h image_bytes = Inl e \<Longrightarrow>
     fst (save_image h self image_bytes response targets confidence directory cam w)
         = (if e = UnidentifiedImageError then None else Some e)
     \<and> w_files (snd (save_image h self image_bytes response targets confidence directory cam w))
         = w_files w
     \<and> fst (snd (process_image h self image_bytes w))
         = (fst (snd (process_image h (self\<lparr>self_save_file_folder := None\<rparr>) image_bytes w)))
             \<lparr>self_save_file_folder := self_save_file_folder self\<rparr>
     \<and> w_files (snd (snd (process_image h self image_bytes w))) = w_files w
     \<and> (e = UnidentifiedImageError \<longrightarrow>
          fst (process_image h self image_bytes w)
            = fst (process_image h (self\<lparr>self_save_file_folder := None\<rparr>) image_bytes w))"
proof -
  assume u: "image_open h image_bytes = Inl e"
  have s1: "fst (save_image h s image_bytes r ts c d n w)
              = (if e = UnidentifiedImageError then None else Some e)" for s r ts c d n
    using u by (simp add: save_image_def)
  have s2: "w_files (snd (save_image h s image_bytes r ts c d n w)) = w_files w" for s r ts c d n
    using u by (simp add: save_image_def)
  have 2: "w_files (snd (snd (process_image h self image_bytes w))) = w_files w"
    unfolding process_image_def
    by (simp add: Let_def s2 split: sum.splits prod.splits) (metis s2 snd_conv)
  have 1: "fst (process_image h self image_bytes w)
         = fst (process_image h (self\<lparr>self_save_file_folder := None\<rparr>) image_bytes w)"
    if "e = UnidentifiedImageError"
    unfolding process_image_def using that
    by (simp add: Let_def truthy_def split: sum.splits prod.splits) (metis s1 fst_conv)
  show ?thesis
    using 1 2 s1 s2 process_image_without_folder [of h self image_bytes w] by simp
qed

theorem save_image_bad_data_witness:
  "image_open unidentified_host [] = Inl UnidentifiedImageError
   \<and> fst (save_image unidentified_host example_entity [] person_response [''person''] 80
            ''/config/www'' ''Front Door'' empty_world) = None
   \<and> w_files (snd (save_image unidentified_host example_entity [] person_response [''person''] 80
            ''/config/www'' ''Front Door'' empty_world)) = w_files empty_world
   \<and> fst (process_image unidentified_host example_entity [] empty_world) = None
   \<and> w_files (snd (snd (process_image unidentified_host example_entity [] empty_world)))
       = w_files empty_world
   \<and> state (fst (snd (process_image unidentified_host example_entity [] empty_world))) = Some 1
   \<and> image_open truncated_host [] = Inl OSError
   \<and> fst (save_image truncated_host example_entity [] person_response [''person''] 80
            ''/config/www'' ''Front Door'' empty_world) = Some OSError
   \<and> w_files (snd (save_image truncated_host example_entity [] person_response [''person''] 80
            ''/config/www'' ''Front Door'' empty_world)) = w_files empty_world
   \<and> w_files (snd (snd (process_image truncated_host example_entity [] empty_world)))
       = w_files empty_world
   \<and> state (fst (snd (process_image truncated_host example_entity [] empty_world))) = Some 1"
proof -
  have u: "image_open unidentified_host [] = Inl UnidentifiedImageError"
    by (simp add: unidentified_host_def)
  have v: "image_open truncated_host [] = Inl OSError"
    by (simp add: truncated_host_def)
  have a: "fst (process_image unidentified_host
                 (example_entity\<lparr>self_save_file_folder := None\<rparr>) [] empty_world) = None"
    by code_simp
  have b: "state (fst (snd (process_image unidentified_host example_entity [] empty_world)))
             = Some 1"
    by code_simp
  have c: "state (fst (snd (process_image truncated_host example_entity [] empty_world)))
             = Some 1"
    by code_simp
  note t1 = save_image_bad_data [OF u, of example_entity person_response "[''person'']" 80
        "''/config/www''" "''Front Door''" empty_world]
  note t2 = save_image_bad_data [OF v, of example_entity person_response "[''person'']" 80
        "''/config/www''" "''Front Door''" empty_world]
  show ?thesis
    using t1 t2 u v a b c by simp
qed

text \<open>
  C7, as the claim states it, fails: \<^verbatim>\<open>save_image\<close> catches \<^verbatim>\<open>UnidentifiedImageError\<close>
  only. When the image library raises \<^verbatim>\<open>OSError\<close> on image data that is cut short, the
  exception leaves \<^verbatim>\<open>save_image\<close> and \<^verbatim>\<open>process_image\<close>.
\<close>

theorem save_image_bad_data_counterexample:
  "image_open truncated_host [] = Inl OSError
   \<and> fst (save_image truncated_host example_entity [] person_response [''person''] 80
            ''/config/www'' ''Front Door'' empty_world) = Some OSError
   \<and> fst (process_image truncated_host example_entity [] empty_world) = Some OSError"
  by code_simp

lemma save_image_written:
  assumes dec: "image_open h image_bytes = Inr img"
    and ok: "save_image h self image_bytes response targets confidence directory cam w = (None, w')"
  shows "w_files w' (truediv directory (lower (get_valid_filename (self_name self)) @ ''_latest.jpg''))
           = Some (img, draw_labels targets confidence img (Labels response) [])"
    and "self_save_timestamped_file self \<Longrightarrow>
         w_files w' (truediv directory
                       (self_name self @ ''_'' @ str_option (self_last_detection self) @ ''.jpg''))
           = Some (img, draw_labels targets confidence img (Labels response) [])"
  using ok unfolding save_image_def img_save_def
  by (auto simp: dec Let_def split: option.splits if_splits)

lemma process_image_saves:
  assumes det: "detect_labels h (self_client self) image_bytes = Inr response"
    and folder: "self_save_file_folder self = Some directory" "directory \<noteq> []"
    and p: "process_image h self image_bytes w = (None, self', w')"
    and pos: "\<exists>k>0. state self' = Some k"
  shows "save_image h self' image_bytes response (self_targets self) (self_confidence self)
           directory (self_name self) w = (None, w')"
    and "self_last_detection self' = Some (strftime DATETIME_FORMAT (now h))"
    and "self_name self' = self_name self"
    and "self_save_timestamped_file self' = self_save_timestamped_file self"
  using p pos unfolding process_image_def state_def
  by (auto simp: det folder truthy_def Let_def split: if_splits prod.splits)

lemma strftime_DATETIME_FORMAT:
  "strftime DATETIME_FORMAT dt =
     zero_pad 4 (str_nat (dt_year dt)) @ ''-'' @ zero_pad 2 (str_nat (dt_month dt)) @ ''-''
     @ zero_pad 2 (str_nat (dt_day dt)) @ ''_'' @ zero_pad 2 (str_nat (dt_hour dt)) @ '':''
     @ zero_pad 2 (str_nat (dt_minute dt)) @ '':'' @ zero_pad 2 (str_nat (dt_second dt))"
  by (simp add: DATETIME_FORMAT_def directive_def)

text \<open>
  C9, amended: a save that decodes the image and raises nothing has written the
  annotated image to the file \<open><name>_latest.jpg\<close> directly below the directory, where
  \<open><name>\<close> is the sanitized entity name in lower case; the file's name has no
  separator, and what was at that path before is replaced. With the time-stamp option
  it has also written the annotated image to the directory joined with the entity name
  as it is, an underscore, the entity's last-detection time stamp and \<open>.jpg\<close>. When
  \<^verbatim>\<open>process_image\<close> makes the save, that time stamp is the time of the call in the
  format \<open>DATETIME_FORMAT\<close>: year, month, day, hour, minute and second, zero padded,
  as \<open>YYYY-MM-DD_HH:MM:SS\<close>.
\<close>

theorem save_image_files:
  "(image_open h image_bytes = Inr img
    \<and> save_image h self image_bytes response targets confidence directory cam w = (None, w')
    \<longrightarrow> w_files w' (directory @ ''/'' @ lower (get_valid_filename (self_name self)) @ ''_latest.jpg'')
          = Some (img, draw_labels targets confidence img (Labels response) [])
        \<and> CHR ''/'' \<notin> set (lower (get_valid_filename (self_name self)) @ ''_latest.jpg'')
        \<and> (self_save_timestamped_file self \<longrightarrow>
             w_files w' (truediv directory
                           (self_name self @ ''_'' @ str_option (self_last_detection self) @ ''.jpg''))
               = Some (img, draw_labels targets confidence img (Labels response) [])))
   \<and> (image_open h image_bytes = Inr img
      \<and> detect_labels h (self_client self) image_bytes = Inr response
      \<and> self_save_file_folder self = Some directory \<and> directory \<noteq> []
      \<and> process_image h self image_bytes w = (None, self', w')
      \<and> (\<exists>k>0. state self' = Some k)
      \<longrightarrow> w_files w' (directory @ ''/'' @ lower (get_valid_filename (self_name self)) @ ''_latest.jpg'')
            = Some (img, draw_labels (self_targets self) (self_confidence self) img
                          (Labels response) [])
          \<and> (self_save_timestamped_file self \<longrightarrow>
               w_files w' (truediv directory
                             (self_name self @ ''_'' @ strftime DATETIME_FORMAT (now h) @ ''.jpg''))
                 = Some (img, draw_labels (self_targets self) (self_confidence self) img
                               (Labels response) [])))
   \<and> strftime DATETIME_FORMAT dt =
       zero_pad 4 (str_nat (dt_year dt)) @ ''-'' @ zero_pad 2 (str_nat (dt_month dt)) @ ''-''
       @ zero_pad 2 (str_nat (dt_day dt)) @ ''_'' @ zero_pad 2 (str_nat (dt_hour dt)) @ '':''
       @ zero_pad 2 (str_nat (dt_minute dt)) @ '':'' @ zero_pad 2 (str_nat (dt_second dt))"
proof (intro conjI impI)
  assume a: "image_open h image_bytes = Inr img
    \<and> save_image h self image_bytes response targets confidence directory cam w = (None, w')"
  then show "w_files w' (directory @ ''/'' @ lower (get_valid_filename (self_name self)) @ ''_latest.jpg'')
          = Some (img, draw_labels targets confidence img (Labels response) [])"
    using save_image_written(1) [of h image_bytes img self response targets confidence directory cam w w']
    by (simp only: truediv_latest)
  show "CHR ''/'' \<notin> set (lower (get_valid_filename (self_name self)) @ ''_latest.jpg'')"
    by (rule latest_segment_no_slash)
  assume "self_save_timestamped_file self"
  then show "w_files w' (truediv directory
                           (self_name self @ ''_'' @ str_option (self_last_detection self) @ ''.jpg''))
               = Some (img, draw_labels targets confidence img (Labels response) [])"
    using a save_image_written(2) [of h image_bytes img self response targets confidence directory cam w w']
    by blast
next
  assume a: "image_open h image_bytes = Inr img
      \<and> detect_labels h (self_client self) image_bytes = Inr response
      \<and> self_save_file_folder self = Some directory \<and> directory \<noteq> []
      \<and> process_image h self image_bytes w = (None, self', w')
      \<and> (\<exists>k>0. state self' = Some k)"
  then have dec: "image_open h image_bytes = Inr img" by blast
  note s = process_image_saves [of h self image_bytes response directory w self' w']
  have sv: "save_image h self' image_bytes response (self_targets self) (self_confidence self)
           directory (self_name self) w = (None, w')"
    and ld: "self_last_detection self' = Some (strftime DATETIME_FORMAT (now h))"
    and nm: "self_name self' = self_name self"
    and ts: "self_save_timestamped_file self' = self_save_timestamped_file self"
    using a s by blast+
  show "w_files w' (directory @ ''/'' @ lower (get_valid_filename (self_name self)) @ ''_latest.jpg'')
            = Some (img, draw_labels (self_targets self) (self_confidence self) img
                          (Labels response) [])"
    using save_image_written(1) [OF dec sv] by (simp only: truediv_latest nm)
  assume "self_save_timestamped_file self"
  then show "w_files w' (truediv directory
                             (self_name self @ ''_'' @ strftime DATETIME_FORMAT (now h) @ ''.jpg''))
                 = Some (img, draw_labels (self_targets self) (self_confidence self) img
                               (Labels response) [])"
    using save_image_written(2) [OF dec sv] by (simp add: nm ts ld str_option_def)
next
  show "strftime DATETIME_FORMAT dt =
       zero_pad 4 (str_nat (dt_year dt)) @ ''-'' @ zero_pad 2 (str_nat (dt_month dt)) @ ''-''
       @ zero_pad 2 (str_nat (dt_day dt)) @ ''_'' @ zero_pad 2 (str_nat (dt_hour dt)) @ '':''
       @ zero_pad 2 (str_nat (dt_minute dt)) @ '':'' @ zero_pad 2 (str_nat (dt_second dt))"
    by (rule strftime_DATETIME_FORMAT)
qed

text \<open>
  C9, as the claim states it, fails: the name of the latest file is the sanitized name
  in lower case. For the entity Front Door the sanitized name is \<open>Front_Door\<close>; the
  save writes \<open>front_door_latest.jpg\<close> and no file \<open>Front_Door_latest.jpg\<close>.
\<close>

theorem save_image_files_counterexample:
  "self_name example_entity = ''Front Door''
   \<and> get_valid_filename ''Front Door'' = ''Front_Door''
   \<and> fst (save_image example_host example_entity [] person_response [''person''] 80
            ''/config/www'' ''Front Door'' empty_world) = None
   \<and> w_files (snd (save_image example_host example_entity [] person_response [''person''] 80
            ''/config/www'' ''Front Door'' empty_world)) ''/config/www/Front_Door_latest.jpg'' = None
   \<and> w_files (snd (save_image example_host example_entity [] person_response [''person''] 80
            ''/config/www'' ''Front Door'' empty_world)) ''/config/www/front_door_latest.jpg'' \<noteq> None"
  by code_simp

lemma example_latest_path:
  "''/config/www'' @ ''/'' @ lower (get_valid_filename (self_name example_entity)) @ ''_latest.jpg''
     = ''/config/www/front_door_latest.jpg''"
  by code_simp

lemma example_timestamp_path:
  "truediv ''/config/www''
     (self_name example_entity @ ''_'' @ strftime DATETIME_FORMAT (now example_host) @ ''.jpg'')
     = ''/config/www/Front Door_2020-03-07_09:05:00.jpg''"
  by code_simp

lemma example_drawn:
  "draw_labels (self_targets example_entity) (self_confidence example_entity) example_image
     (Labels person_response) []
     = [\<lparr>call_box = (0.1, 0.1, 3602879701896397 / 2 ^ 53, 1351079888211149 / 2 ^ 52), call_img_width = 640, call_img_height = 480,
          call_text = ''person: 98.2%''\<rparr>]"
  by code_simp

lemma example_process_ok:
  "fst (process_image example_host example_entity [] empty_world) = None"
  by code_simp

lemma example_process_state:
  "state (fst (snd (process_image example_host example_entity [] empty_world))) = Some 1"
  by code_simp

theorem save_image_files_witness:
  "image_open example_host [] = Inr example_image
   \<and> fst (process_image example_host example_entity [] empty_world) = None
   \<and> state (fst (snd (process_image example_host example_entity [] empty_world))) = Some 1
   \<and> w_files (snd (snd (process_image example_host example_entity [] empty_world)))
       ''/config/www/front_door_latest.jpg''
       = Some (example_image,
               [\<lparr>call_box = (0.1, 0.1, 3602879701896397 / 2 ^ 53, 1351079888211149 / 2 ^ 52), call_img_width = 640, call_img_height = 480,
                  call_text = ''person: 98.2%''\<rparr>])
   \<and> w_files (snd (snd (process_image example_host example_entity [] empty_world)))
       ''/config/www/Front Door_2020-03-07_09:05:00.jpg''
       = Some (example_image,
               [\<lparr>call_box = (0.1, 0.1, 3602879701896397 / 2 ^ 53, 1351079888211149 / 2 ^ 52), call_img_width = 640, call_img_height = 480,
                  call_text = ''person: 98.2%''\<rparr>])"
proof -
  obtain r self' w' where p: "process_image example_host example_entity [] empty_world = (r, self', w')"
    by (cases "process_image example_host example_entity [] empty_world")
  have r: "r = None" using example_process_ok by (simp add: p)
  have k: "\<exists>k>0. state self' = Some k" using example_process_state by (simp add: p)
  have dec: "image_open example_host [] = Inr example_image"
    by (simp add: example_host_def)
  have det: "detect_labels example_host (self_client example_entity) [] = Inr person_response"
    by (simp add: example_host_def)
  have folder: "self_save_file_folder example_entity = Some ''/config/www''"
    and ts: "self_save_timestamped_file example_entity"
    by (simp_all add: example_entity_def)
  have pre: "image_open example_host [] = Inr example_image
      \<and> detect_labels example_host (self_client example_entity) [] = Inr person_response
      \<and> self_save_file_folder example_entity = Some ''/config/www'' \<and> ''/config/www'' \<noteq> []
      \<and> process_image example_host example_entity [] empty_world = (None, self', w')
      \<and> (\<exists>k>0. state self' = Some k)"
    using dec det folder p r k by simp
  note t = save_image_files [of example_host "[]" example_image example_entity person_response
      "[]" 0 "''/config/www''" "[]" empty_world w' self' example_datetime]
  from t pre ts have
    "w_files w' (''/config/www'' @ ''/'' @ lower (get_valid_filename (self_name example_entity))
                 @ ''_latest.jpg'')
       = Some (example_image,
               draw_labels (self_targets example_entity) (self_confidence example_entity)
                 example_image (Labels person_response) [])"
    and "w_files w' (truediv ''/config/www''
                       (self_name example_entity @ ''_''
                        @ strftime DATETIME_FORMAT (now example_host) @ ''.jpg''))
       = Some (example_image,
               draw_labels (self_targets example_entity) (self_confidence example_entity)
                 example_image (Labels person_response) [])"
    by blast+
  then have "w_files w' ''/config/www/front_door_latest.jpg''
       = Some (example_image,
               [\<lparr>call_box = (0.1, 0.1, 3602879701896397 / 2 ^ 53, 1351079888211149 / 2 ^ 52), call_img_width = 640, call_img_height = 480,
                  call_text = ''person: 98.2%''\<rparr>])"
    and "w_files w' ''/config/www/Front Door_2020-03-07_09:05:00.jpg''
       = Some (example_image,
               [\<lparr>call_box = (0.1, 0.1, 3602879701896397 / 2 ^ 53, 1351079888211149 / 2 ^ 52), call_img_width = 640, call_img_height = 480,
                  call_text = ''person: 98.2%''\<rparr>])"
    unfolding example_latest_path example_timestamp_path example_drawn by blast+
  then show ?thesis
    using dec example_process_ok example_process_state by (simp add: p)
qed

section \<open>The boxes of the annotator\<close>

lemma format_1f_98_26: "format_1f (4913 / 50) = ''98.3''"
  by code_simp

lemma float_add_tenths:
  "float_add (1 / 10) (3 / 10) = 3602879701896397 / 9007199254740992"
  "float_add (1 / 10) (1 / 5) = 1351079888211149 / 4503599627370496"
  by code_simp+

lemma duplicate_calls:
  "concat (map (\<lambda>l. map (\<lambda>i.
         \<lparr>call_box = (box_Top (inst_BoundingBox i), box_Left (inst_BoundingBox i),
                      float_add (box_Top (inst_BoundingBox i)) (box_Height (inst_BoundingBox i)),
                      float_add (box_Left (inst_BoundingBox i)) (box_Width (inst_BoundingBox i))),
          call_img_width = img_width example_image, call_img_height = img_height example_image,
          call_text = lower (label_Name l) @ '': '' @ format_1f (label_Confidence l) @ ''%''\<rparr>)
         (label_Instances l))
       (filter (\<lambda>l. 80 \<le> label_Confidence l \<and> lower (label_Name l) \<in> set [''person''])
          (Labels duplicate_response)))
   = [\<lparr>call_box = (0.1, 0.1, 3602879701896397 / 2 ^ 53, 1351079888211149 / 2 ^ 52),
        call_img_width = 640, call_img_height = 480, call_text = ''person: 98.3%''\<rparr>]"
  by (simp add: duplicate_response_def example_box_def example_image_def
        lower_Person lower_PERSON lower_Dog format_1f_98_26 float_add_tenths)

lemma example_box_sums:
  "float_add (box_Top example_box) (box_Height example_box) = 3602879701896397 / 2 ^ 53"
  "float_add (box_Left example_box) (box_Width example_box) = 1351079888211149 / 2 ^ 52"
  by code_simp+

lemma example_box_products:
  "float_mul (box_Left example_box) (real_of_int 640) = 64"
  "float_mul (box_Top example_box) (real_of_int 480) = 48"
  "float_mul (1351079888211149 / 2 ^ 52) (real_of_int 640) = 6755399441055745 / 2 ^ 45"
  "float_mul (3602879701896397 / 2 ^ 53) (real_of_int 480) = 192"
  by code_simp+

lemma example_box_corner: "box_Top example_box = 0.1" "box_Left example_box = 0.1"
  by (simp_all add: example_box_def)

lemma duplicate_save_ok:
  "fst (save_image example_host example_entity [] duplicate_response [''person''] 80
          ''/config/www'' ''Front Door'' empty_world) = None"
  by code_simp

text \<open>
  C8: the annotated image that \<^verbatim>\<open>save_image\<close> saves has, on the decoded image, the calls
  of \<^verbatim>\<open>draw_box\<close> made label by label in the order of the response: one call per
  instance of each label whose confidence is at least the threshold and whose lowered
  name is a target, and no call for any other label. A call passes the corners (top,
  left, top + height, left + width) of the instance's box, the sums being sums of
  floats, the width and height of the image, and the text made of the lowered name, a
  colon and the label's confidence with one decimal and a percent sign. The rectangle
  drawn for such a call has the corners (left, top, left + width, top + height)
  multiplied by the image's width and height.
\<close>

theorem draw_labels_boxes:
  "(image_open h image_bytes = Inr img
     \<and> save_image h self image_bytes response targets confidence directory cam w = (None, w')
    \<longrightarrow> w_files w' (directory @ ''/'' @ lower (get_valid_filename (self_name self)) @ ''_latest.jpg'')
          = Some (img,
              concat (map (\<lambda>l. map (\<lambda>i.
                  \<lparr>call_box = (box_Top (inst_BoundingBox i), box_Left (inst_BoundingBox i),
                      float_add (box_Top (inst_BoundingBox i)) (box_Height (inst_BoundingBox i)),
                      float_add (box_Left (inst_BoundingBox i)) (box_Width (inst_BoundingBox i))),
                   call_img_width = img_width img, call_img_height = img_height img,
                   call_text = lower (label_Name l) @ '': '' @ format_1f (label_Confidence l)
                               @ ''%''\<rparr>)
                  (label_Instances l))
                (filter (\<lambda>l. confidence \<le> label_Confidence l \<and> lower (label_Name l) \<in> set targets)
                   (Labels response)))))
   \<and> draw_labels targets confidence img labels [] =
     concat (map (\<lambda>l. map (\<lambda>i.
         \<lparr>call_box = (box_Top (inst_BoundingBox i), box_Left (inst_BoundingBox i),
                      float_add (box_Top (inst_BoundingBox i)) (box_Height (inst_BoundingBox i)),
                      float_add (box_Left (inst_BoundingBox i)) (box_Width (inst_BoundingBox i))),
          call_img_width = img_width img, call_img_height = img_height img,
          call_text = lower (label_Name l) @ '': '' @ format_1f (label_Confidence l) @ ''%''\<rparr>)
         (label_Instances l))
       (filter (\<lambda>l. confidence \<le> label_Confidence l \<and> lower (label_Name l) \<in> set targets)
          labels))
   \<and> draw_box_rectangle
         \<lparr>call_box = (box_Top b, box_Left b, float_add (box_Top b) (box_Height b),
                      float_add (box_Left b) (box_Width b)),
          call_img_width = W, call_img_height = H, call_text = t\<rparr>
       = (float_mul (box_Left b) (of_int W), float_mul (box_Top b) (of_int H),
          float_mul (float_add (box_Left b) (box_Width b)) (of_int W),
          float_mul (float_add (box_Top b) (box_Height b)) (of_int H))"
proof (intro conjI impI)
  assume a: "image_open h image_bytes = Inr img
     \<and> save_image h self image_bytes response targets confidence directory cam w = (None, w')"
  have "w_files w' (directory @ ''/'' @ lower (get_valid_filename (self_name self)) @ ''_latest.jpg'')
          = Some (img, draw_labels targets confidence img (Labels response) [])"
    using a save_image_written(1) [of h image_bytes img self response targets confidence
        directory cam w w']
    by (simp only: truediv_latest)
  then show "w_files w' (directory @ ''/'' @ lower (get_valid_filename (self_name self)) @ ''_latest.jpg'')
          = Some (img,
              concat (map (\<lambda>l. map (\<lambda>i.
                  \<lparr>call_box = (box_Top (inst_BoundingBox i), box_Left (inst_BoundingBox i),
                      float_add (box_Top (inst_BoundingBox i)) (box_Height (inst_BoundingBox i)),
                      float_add (box_Left (inst_BoundingBox i)) (box_Width (inst_BoundingBox i))),
                   call_img_width = img_width img, call_img_height = img_height img,
                   call_text = lower (label_Name l) @ '': '' @ format_1f (label_Confidence l)
                               @ ''%''\<rparr>)
                  (label_Instances l))
                (filter (\<lambda>l. confidence \<le> label_Confidence l \<and> lower (label_Name l) \<in> set targets)
                   (Labels response))))"
    by (simp only: draw_labels_concat append_Nil)
next
  show "draw_labels targets confidence img labels [] =
     concat (map (\<lambda>l. map (\<lambda>i.
         \<lparr>call_box = (box_Top (inst_BoundingBox i), box_Left (inst_BoundingBox i),
                      float_add (box_Top (inst_BoundingBox i)) (box_Height (inst_BoundingBox i)),
                      float_add (box_Left (inst_BoundingBox i)) (box_Width (inst_BoundingBox i))),
          call_img_width = img_width img, call_img_height = img_height img,
          call_text = lower (label_Name l) @ '': '' @ format_1f (label_Confidence l) @ ''%''\<rparr>)
         (label_Instances l))
       (filter (\<lambda>l. confidence \<le> label_Confidence l \<and> lower (label_Name l) \<in> set targets)
          labels))"
    by (simp only: draw_labels_concat append_Nil)
next
  show "draw_box_rectangle
         \<lparr>call_box = (box_Top b, box_Left b, float_add (box_Top b) (box_Height b),
                      float_add (box_Left b) (box_Width b)),
          call_img_width = W, call_img_height = H, call_text = t\<rparr>
       = (float_mul (box_Left b) (of_int W), float_mul (box_Top b) (of_int H),
          float_mul (float_add (box_Left b) (box_Width b)) (of_int W),
          float_mul (float_add (box_Top b) (box_Height b)) (of_int H))"
    by (simp add: draw_box_rectangle_def)
qed

text \<open>
  Of the labels Person (98.26), Dog (no instance) and PERSON (70.25), the threshold 80 and
  the target person leave one box in the saved file, on a 640 by 480 image. The box is
  (0.1, 0.1, 0.2, 0.3); the sum of the floats 0.1 and 0.2 is 0.30000000000000004.
\<close>

theorem draw_labels_boxes_witness:
  "image_open example_host [] = Inr example_image
   \<and> fst (save_image example_host example_entity [] duplicate_response [''person''] 80
            ''/config/www'' ''Front Door'' empty_world) = None
   \<and> w_files (snd (save_image example_host example_entity [] duplicate_response [''person''] 80
            ''/config/www'' ''Front Door'' empty_world)) ''/config/www/front_door_latest.jpg''
       = Some (example_image,
               [\<lparr>call_box = (0.1, 0.1, 3602879701896397 / 2 ^ 53, 1351079888211149 / 2 ^ 52),
                  call_img_width = 640, call_img_height = 480, call_text = ''person: 98.3%''\<rparr>])
   \<and> draw_box_rectangle
         \<lparr>call_box = (0.1, 0.1, 3602879701896397 / 2 ^ 53, 1351079888211149 / 2 ^ 52),
          call_img_width = 640, call_img_height = 480, call_text = ''person: 98.3%''\<rparr>
       = (64, 48, 6755399441055745 / 2 ^ 45, 192)"
proof -
  obtain r w' where p: "save_image example_host example_entity [] duplicate_response [''person''] 80
            ''/config/www'' ''Front Door'' empty_world = (r, w')"
    by (cases "save_image example_host example_entity [] duplicate_response [''person''] 80
            ''/config/www'' ''Front Door'' empty_world")
  have r: "r = None" using duplicate_save_ok by (simp add: p)
  have dec: "image_open example_host [] = Inr example_image"
    by (simp add: example_host_def)
  note t = draw_labels_boxes [of example_host "[]" example_image example_entity
      duplicate_response "[''person'']" 80 "''/config/www''" "''Front Door''" empty_world w'
      "[]" example_box 640 480 "''person: 98.3%''"]
  have "w_files w' (''/config/www'' @ ''/'' @ lower (get_valid_filename (self_name example_entity))
                    @ ''_latest.jpg'')
          = Some (example_image,
              concat (map (\<lambda>l. map (\<lambda>i.
                  \<lparr>call_box = (box_Top (inst_BoundingBox i), box_Left (inst_BoundingBox i),
                      float_add (box_Top (inst_BoundingBox i)) (box_Height (inst_BoundingBox i)),
                      float_add (box_Left (inst_BoundingBox i)) (box_Width (inst_BoundingBox i))),
                   call_img_width = img_width example_image,
                   call_img_height = img_height example_image,
                   call_text = lower (label_Name l) @ '': '' @ format_1f (label_Confidence l)
                               @ ''%''\<rparr>)
                  (label_Instances l))
                (filter (\<lambda>l. 80 \<le> label_Confidence l \<and> lower (label_Name l) \<in> set [''person''])
                   (Labels duplicate_response))))"
    using t dec p r by blast
  then have f: "w_files w' ''/config/www/front_door_latest.jpg''
       = Some (example_image,
               [\<lparr>call_box = (0.1, 0.1, 3602879701896397 / 2 ^ 53, 1351079888211149 / 2 ^ 52),
                  call_img_width = 640, call_img_height = 480, call_text = ''person: 98.3%''\<rparr>])"
    unfolding example_latest_path duplicate_calls .
  have "draw_box_rectangle
         \<lparr>call_box = (box_Top example_box, box_Left example_box,
                      float_add (box_Top example_box) (box_Height example_box),
                      float_add (box_Left example_box) (box_Width example_box)),
          call_img_width = 640, call_img_height = 480, call_text = ''person: 98.3%''\<rparr>
       = (float_mul (box_Left example_box) (of_int 640), float_mul (box_Top example_box) (of_int 480),
          float_mul (float_add (box_Left example_box) (box_Width example_box)) (of_int 640),
          float_mul (float_add (box_Top example_box) (box_Height example_box)) (of_int 480))"
    using t by blast
  then have g: "draw_box_rectangle
         \<lparr>call_box = (0.1, 0.1, 3602879701896397 / 2 ^ 53, 1351079888211149 / 2 ^ 52),
          call_img_width = 640, call_img_height = 480, call_text = ''person: 98.3%''\<rparr>
       = (64, 48, 6755399441055745 / 2 ^ 45, 192)"
    unfolding example_box_sums
    unfolding example_box_products
    unfolding example_box_corner .
  show ?thesis
    using dec duplicate_save_ok f g by (simp only: p snd_conv fst_conv r)
qed

end
